theory Spec2Isabelle
  imports Complex_Main
begin

section \<open>JavaScript values as the handlers see them\<close>

text \<open>
  The push handler works on the result of \<^verbatim>\<open>JSON.parse(event.data)\<close>, which TypeScript
  types as \<^verbatim>\<open>any\<close>: every property read and every \<^verbatim>\<open>||\<close> is decided at run time.
  A number is a double: a finite value (a real here, with \<^verbatim>\<open>-0\<close> identified with \<^verbatim>\<open>0\<close>,
  both falsy), an infinity (\<^verbatim>\<open>JSON.parse("1e999")\<close>) or NaN.
  \<open>JObj\<close> lists the own properties of an object, one entry per key.
\<close>

datatype jsnumber = Finite real | PosInfinity | NegInfinity | NaN

datatype jsval =
    JUndefined
  | JNull
  | JBool bool
  | JNum jsnumber
  | JStr string
  | JArr "jsval list"
  | JObj "(string \<times> jsval) list"

text \<open>
  What a \<^verbatim>\<open>catch\<close> of the sources can receive: the SyntaxError of \<^verbatim>\<open>JSON.parse\<close>, the
  TypeError of a property read on undefined or null, and the rejection of an axios request
  (network failure, timeout, or a response status outside 2xx).
\<close>

datatype js_error = SyntaxError | TypeError | RequestError

text \<open>ToBoolean: the falsy values are undefined, null, false, 0, NaN and the empty string.\<close>

fun truthy :: "jsval \<Rightarrow> bool" where
  "truthy JUndefined = False"
| "truthy JNull = False"
| "truthy (JBool b) = b"
| "truthy (JNum n) = (n \<noteq> Finite 0 \<and> n \<noteq> NaN)"
| "truthy (JStr s) = (s \<noteq> [])"
| "truthy (JArr xs) = True"
| "truthy (JObj kvs) = True"

text \<open>\<^verbatim>\<open>a || b\<close>: the left operand when it is truthy, the right one otherwise.\<close>

definition js_or :: "jsval \<Rightarrow> jsval \<Rightarrow> jsval" where
  "js_or a b = (if truthy a then a else b)"

text \<open>
  \<^verbatim>\<open>v.k\<close>: reading a property of undefined or null throws a TypeError; an object gives
  the property's value, or undefined when it has none. The handlers read only the keys
  \<^verbatim>\<open>type\<close>, \<^verbatim>\<open>data\<close>, \<^verbatim>\<open>status\<close>, \<^verbatim>\<open>completion_percentage\<close>, \<^verbatim>\<open>current_node\<close> and
  \<^verbatim>\<open>message\<close>, none of which a boolean, a number, a string or an array has.
\<close>

fun get_prop :: "jsval \<Rightarrow> string \<Rightarrow> js_error + jsval" where
  "get_prop JUndefined k = Inl TypeError"
| "get_prop JNull k = Inl TypeError"
| "get_prop (JObj kvs) k = Inr (case map_of kvs k of None \<Rightarrow> JUndefined | Some v \<Rightarrow> v)"
| "get_prop v k = Inr JUndefined"

text \<open>\<^verbatim>\<open>message.data.k\<close>: two reads, the first error wins.\<close>

definition message_data :: "jsval \<Rightarrow> string \<Rightarrow> js_error + jsval" where
  "message_data message k =
     (case get_prop message ''data'' of Inl e \<Rightarrow> Inl e | Inr d \<Rightarrow> get_prop d k)"

section \<open>The Project entity\<close>

text \<open>
  Modelled from the spec: the \<^verbatim>\<open>Project\<close> interface of \<^verbatim>\<open>../types\<close> is not among the
  sources. The fields are the ones the components read (\<^verbatim>\<open>project.name\<close>,
  \<^verbatim>\<open>project.artifacts\<close>, ...), which are the spec's Job fields; the spec's
  \<^verbatim>\<open>generation\<close> is read or written nowhere in the sources and is not a field.
  The three fields that the push handler overwrites with values of type \<^verbatim>\<open>any\<close>
  hold JavaScript values, and so does the optional artifact bundle.
\<close>

record Project =
  project_id :: string
  name :: string
  requirements :: string
  status :: jsval
  completion_percentage :: jsval
  current_node :: jsval
  errors :: "string list"
  artifacts :: jsval
  created_at :: string
  updated_at :: string

section \<open>ProjectDetail: component state and effects\<close>

datatype toast = Toast (title: string) (description: jsval) (toast_status: string)

datatype ready_state = CONNECTING | OPEN | CLOSING | CLOSED

text \<open>The socket: its state and the values handed to \<^verbatim>\<open>JSON.stringify\<close> and sent.\<close>

record websocket =
  readyState :: ready_state
  sent :: "jsval list"

text \<open>
  The \<^verbatim>\<open>useState\<close> cells and the \<^verbatim>\<open>ws\<close> ref of ProjectDetail, with the effects the
  handlers have on the outside: the toasts shown, the console, the number of
  \<^verbatim>\<open>getProject\<close> requests awaiting their reply, and an error thrown by a state updater
  while React renders (outside every \<^verbatim>\<open>try\<close> of the component).
\<close>

record detail_state =
  projectId :: "string option"
  project :: "Project option"
  loading :: bool
  error :: "string option"
  isRunning :: bool
  ws :: "websocket option"
  toasts :: "toast list"
  console :: "(string \<times> js_error) list"
  getProject_pending :: nat
  render_error :: "js_error option"

text \<open>\<^verbatim>\<open>!projectId\<close> holds for an undefined and for an empty route parameter.\<close>

definition no_projectId :: "detail_state \<Rightarrow> bool" where
  "no_projectId st = (case projectId st of None \<Rightarrow> True | Some s \<Rightarrow> s = [])"

text \<open>
  The updater passed to \<^verbatim>\<open>setProject\<close> in the \<^verbatim>\<open>status_update\<close> branch (part_005,
  lines 75-84): a null project stays null; otherwise the three fields are overwritten
  by \<^verbatim>\<open>message.data.f || prev.f\<close>, every other field is copied by the spread.
\<close>

definition status_update_updater :: "jsval \<Rightarrow> Project option \<Rightarrow> js_error + Project option" where
  "status_update_updater message prev =
     (case prev of
        None \<Rightarrow> Inr None
      | Some p \<Rightarrow>
          (case message_data message ''status'' of
             Inl e \<Rightarrow> Inl e
           | Inr s \<Rightarrow>
               (case message_data message ''completion_percentage'' of
                  Inl e \<Rightarrow> Inl e
                | Inr c \<Rightarrow>
                    (case message_data message ''current_node'' of
                       Inl e \<Rightarrow> Inl e
                     | Inr n \<Rightarrow>
                         Inr (Some (p\<lparr>status := js_or s (status p),
                                       completion_percentage := js_or c (completion_percentage p),
                                       current_node := js_or n (current_node p)\<rparr>))))))"

text \<open>
  \<^verbatim>\<open>setProject(updater)\<close>: React runs the updater on the current state when it renders.
  An updater that throws fails the render; the project it was given is not replaced.
\<close>

definition setProject :: "(Project option \<Rightarrow> js_error + Project option) \<Rightarrow> detail_state \<Rightarrow> detail_state" where
  "setProject updater st =
     (case updater (project st) of
        Inr p \<Rightarrow> st\<lparr>project := p\<rparr>
      | Inl e \<Rightarrow> st\<lparr>render_error := Some e\<rparr>)"

definition show_toast :: "toast \<Rightarrow> detail_state \<Rightarrow> detail_state" where
  "show_toast t st = st\<lparr>toasts := toasts st @ [t]\<rparr>"

text \<open>
  \<^verbatim>\<open>loadProject\<close> (part_005, lines 144-165) up to its \<^verbatim>\<open>await\<close>: nothing without a
  projectId, else loading is set, the error cleared and one \<^verbatim>\<open>getProject\<close> request issued.
\<close>

definition loadProject :: "detail_state \<Rightarrow> detail_state" where
  "loadProject st =
     (if no_projectId st then st
      else st\<lparr>loading := True, error := None, getProject_pending := getProject_pending st + 1\<rparr>)"

text \<open>
  \<^verbatim>\<open>loadProject\<close> after the \<^verbatim>\<open>await\<close>: \<^verbatim>\<open>getProject\<close> (ProjectContext, lines 53-61)
  catches every failure of its request and resolves to null, so the reply is a Project
  or null and the \<^verbatim>\<open>catch\<close> of \<^verbatim>\<open>loadProject\<close> has nothing to catch.
\<close>

definition loadProject_resume :: "Project option \<Rightarrow> detail_state \<Rightarrow> detail_state" where
  "loadProject_resume projectData st =
     (case projectData of
        Some pd \<Rightarrow>
          st\<lparr>project := Some pd, isRunning := (status pd = JStr ''running''),
             loading := False, getProject_pending := getProject_pending st - 1\<rparr>
      | None \<Rightarrow>
          st\<lparr>error := Some ''Project not found'',
             loading := False, getProject_pending := getProject_pending st - 1\<rparr>)"

text \<open>
  The body of the \<^verbatim>\<open>try\<close> in \<^verbatim>\<open>ws.current.onmessage\<close> (part_005, lines 70-113): the
  error thrown, if any, with the state as the statements before the throw left it.
  \<^verbatim>\<open>JSON.parse\<close> is the platform's; it is a parameter, None where it throws.
\<close>

definition onmessage_try ::
  "(string \<Rightarrow> jsval option) \<Rightarrow> string \<Rightarrow> detail_state \<Rightarrow> js_error option \<times> detail_state" where
  "onmessage_try JSON_parse event_data st =
     (case JSON_parse event_data of
        None \<Rightarrow> (Some SyntaxError, st)
      | Some message \<Rightarrow>
          (case get_prop message ''type'' of
             Inl e \<Rightarrow> (Some e, st)
           | Inr ty \<Rightarrow>
               if ty = JStr ''status_update'' then
                 (let st1 = setProject (status_update_updater message) st in
                  case message_data message ''status'' of
                    Inl e \<Rightarrow> (Some e, st1)
                  | Inr s \<Rightarrow>
                      if s = JStr ''running'' then (None, st1\<lparr>isRunning := True\<rparr>)
                      else if s \<in> set [JStr ''completed'', JStr ''failed'', JStr ''cancelled'']
                      then (None, loadProject (st1\<lparr>isRunning := False\<rparr>))
                      else (None, st1))
               else if ty = JStr ''error'' then
                 (case message_data message ''message'' of
                    Inl e \<Rightarrow> (Some e, st)
                  | Inr m \<Rightarrow>
                      (None, show_toast (Toast ''Error'' (js_or m (JStr ''An error occurred'')) ''error'') st))
               else if ty = JStr ''completion'' then
                 (None, loadProject
                    (show_toast (Toast ''Project completed''
                       (JStr ''Your application has been generated successfully'') ''success'') st))
               else (None, st)))"

text \<open>The handler with its \<^verbatim>\<open>catch\<close>, which logs the error and returns.\<close>

definition onmessage :: "(string \<Rightarrow> jsval option) \<Rightarrow> string \<Rightarrow> detail_state \<Rightarrow> detail_state" where
  "onmessage JSON_parse event_data st =
     (case onmessage_try JSON_parse event_data st of
        (None, st') \<Rightarrow> st'
      | (Some e, st') \<Rightarrow> st'\<lparr>console := console st' @ [(''Error parsing WebSocket message:'', e)]\<rparr>)"

subsection \<open>Starting a run\<close>

text \<open>
  \<^verbatim>\<open>runProject\<close> (ProjectContext, lines 80-89): true when the POST resolves; a
  rejection is logged and gives false. The outcome of the request is the parameter.
\<close>

definition runProject :: "bool \<Rightarrow> detail_state \<Rightarrow> bool \<times> detail_state" where
  "runProject post_ok st =
     (if post_ok then (True, st)
      else (False, st\<lparr>console := console st @ [(''Failed to run project:'', RequestError)]\<rparr>))"

text \<open>
  \<^verbatim>\<open>handleRunProject\<close> (part_005, lines 173-200). The handler reads no status and sets
  no field of the project; every state change comes after the \<^verbatim>\<open>await\<close>.
\<close>

definition handleRunProject :: "bool \<Rightarrow> detail_state \<Rightarrow> detail_state" where
  "handleRunProject post_ok st =
     (if no_projectId st then st
      else
        (case runProject post_ok st of
           (True, st1) \<Rightarrow>
             show_toast (Toast ''Project started''
               (JStr ''The application generation has started'') ''info'') (st1\<lparr>isRunning := True\<rparr>)
         | (False, st1) \<Rightarrow>
             show_toast (Toast ''Start failed''
               (JStr ''Failed to start the project'') ''error'') st1))"

text \<open>\<^verbatim>\<open>canRun\<close> (part_005, line 269).\<close>

definition canRun :: "Project \<Rightarrow> bool" where
  "canRun p =
     (status p \<in> set [JStr ''created'', JStr ''failed'', JStr ''cancelled'', JStr ''completed''])"

text \<open>
  Whether the render (part_005, lines 242-299) shows the button whose \<^verbatim>\<open>onClick\<close> is
  \<^verbatim>\<open>handleRunProject\<close>: not on the spinner, error or not-found pages, and only when
  \<^verbatim>\<open>canRun\<close>.
\<close>

definition run_button :: "detail_state \<Rightarrow> bool" where
  "run_button st =
     (if loading st \<and> project st = None then False
      else if (case error st of None \<Rightarrow> False | Some msg \<Rightarrow> msg \<noteq> []) then False
      else (case project st of None \<Rightarrow> False | Some p \<Rightarrow> canRun p))"

subsection \<open>Keeping the socket alive\<close>

text \<open>The callback of \<^verbatim>\<open>pingInterval\<close> (part_005, lines 128-132) and its period.\<close>

definition pingIntervalMs :: nat where
  "pingIntervalMs = 30000"

definition pingCallback :: "detail_state \<Rightarrow> detail_state" where
  "pingCallback st =
     (case ws st of
        None \<Rightarrow> st
      | Some w \<Rightarrow>
          if readyState w = OPEN
          then st\<lparr>ws := Some (w\<lparr>sent := sent w @ [JObj [(''type'', JStr ''ping'')]]\<rparr>)\<rparr>
          else st)"

text \<open>
  \<^verbatim>\<open>setInterval(f, ms)\<close>: \<open>f\<close> runs at every multiple of \<open>ms\<close> after the call. Between
  the times \<open>t\<close> and \<open>t + d\<close> (milliseconds since the call) it runs this many times.
\<close>

definition interval_runs :: "nat \<Rightarrow> nat \<Rightarrow> nat \<Rightarrow> nat" where
  "interval_runs ms t d = (t + d) div ms - t div ms"

text \<open>
  \<open>d\<close> milliseconds go by with no frame arriving and no unmount: only the ping timer
  runs. The first component is the time since the effect set the timer.
\<close>

definition ping_elapse :: "nat \<Rightarrow> nat \<times> detail_state \<Rightarrow> nat \<times> detail_state" where
  "ping_elapse d ts =
     (fst ts + d, (pingCallback ^^ interval_runs pingIntervalMs (fst ts) d) (snd ts))"

section \<open>ProjectContext and the Dashboard: the pull channel\<close>

text \<open>
  The \<^verbatim>\<open>useState\<close> cells of ProjectProvider, the console, the number of
  \<^verbatim>\<open>GET /api/projects\<close> requests awaiting their reply, and whether the Dashboard's
  interval is set.
\<close>

record pull_state =
  projects :: "Project list"
  ctx_loading :: bool
  ctx_error :: "string option"
  ctx_console :: "js_error list"
  requests_pending :: nat
  interval_set :: bool

text \<open>
  \<^verbatim>\<open>fetchProjects\<close> (ProjectContext, lines 38-51) up to its \<^verbatim>\<open>await\<close>: the request is
  issued whatever the state; there is no test of \<^verbatim>\<open>loading\<close> or of a pending request.
\<close>

definition fetchProjects :: "pull_state \<Rightarrow> pull_state" where
  "fetchProjects st =
     st\<lparr>ctx_loading := True, ctx_error := None, requests_pending := requests_pending st + 1\<rparr>"

text \<open>The continuation when the request resolves: the list is replaced.\<close>

definition fetchProjects_resolved :: "Project list \<Rightarrow> pull_state \<Rightarrow> pull_state" where
  "fetchProjects_resolved ps st =
     st\<lparr>projects := ps, ctx_loading := False, requests_pending := requests_pending st - 1\<rparr>"

text \<open>The continuation when it rejects: the \<^verbatim>\<open>catch\<close>, then the \<^verbatim>\<open>finally\<close>.\<close>

definition fetchProjects_rejected :: "pull_state \<Rightarrow> pull_state" where
  "fetchProjects_rejected st =
     st\<lparr>ctx_error := Some ''Failed to fetch projects'',
        ctx_console := ctx_console st @ [RequestError],
        ctx_loading := False, requests_pending := requests_pending st - 1\<rparr>"

text \<open>
  The Dashboard's effect (part_004, lines 28-35): the interval is set on mount and
  cleared on unmount; its callback calls \<^verbatim>\<open>fetchProjects\<close> every 10000 ms. The effect
  depends on \<^verbatim>\<open>fetchProjects\<close>, which every render of the provider creates anew: the
  interval is then cleared and set again in the same step, which leaves it set.
\<close>

definition pollIntervalMs :: nat where
  "pollIntervalMs = 10000"

definition dashboard_mount :: "pull_state \<Rightarrow> pull_state" where
  "dashboard_mount st = st\<lparr>interval_set := True\<rparr>"

definition dashboard_unmount :: "pull_state \<Rightarrow> pull_state" where
  "dashboard_unmount st = st\<lparr>interval_set := False\<rparr>"

definition dashboard_tick :: "pull_state \<Rightarrow> pull_state" where
  "dashboard_tick st = (if interval_set st then fetchProjects st else st)"

section \<open>Concrete jobs, states and frames\<close>

text \<open>A running job at 65 percent, watched over an open socket.\<close>

definition example_job :: Project where
  "example_job =
     \<lparr>project_id = ''p1'', name = ''App'', requirements = ''Build a todo app'',
      status = JStr ''running'', completion_percentage = JNum (Finite 65),
      current_node = JStr ''codegen'', errors = [], artifacts = JUndefined,
      created_at = ''2024-05-01T10:00:00'', updated_at = ''2024-05-01T10:05:00''\<rparr>"

definition example_state :: detail_state where
  "example_state =
     \<lparr>projectId = Some ''p1'', project = Some example_job, loading = False, error = None,
      isRunning = True, ws = Some \<lparr>readyState = OPEN, sent = []\<rparr>, toasts = [],
      console = [], getProject_pending = 0, render_error = None\<rparr>"

text \<open>A job that failed at 40 percent and holds the artifacts of that run.\<close>

definition failed_job :: Project where
  "failed_job =
     \<lparr>project_id = ''p2'', name = ''Shop'', requirements = ''Build a shop'',
      status = JStr ''failed'', completion_percentage = JNum (Finite 40),
      current_node = JStr ''validate'', errors = [''validation failed''],
      artifacts = JObj [(''code_files'', JObj [(''app.py'', JStr ''print(1)'')])],
      created_at = ''2024-05-02T09:00:00'', updated_at = ''2024-05-02T09:30:00''\<rparr>"

definition failed_state :: detail_state where
  "failed_state =
     \<lparr>projectId = Some ''p2'', project = Some failed_job, loading = False, error = None,
      isRunning = False, ws = Some \<lparr>readyState = OPEN, sent = []\<rparr>, toasts = [],
      console = [], getProject_pending = 0, render_error = None\<rparr>"

text \<open>Frames as the server sends them, and the values \<^verbatim>\<open>JSON.parse\<close> gives for them.\<close>

definition frame_progress_10 :: string where
  \<open>frame_progress_10 = ''{"type":"status_update","data":{"completion_percentage":10}}''\<close>

definition message_progress_10 :: jsval where
  "message_progress_10 =
     JObj [(''type'', JStr ''status_update''),
           (''data'', JObj [(''completion_percentage'', JNum (Finite 10))])]"

definition frame_restart :: string where
  \<open>frame_restart =
     ''{"type":"status_update","data":{"status":"running","completion_percentage":0}}''\<close>

definition message_restart :: jsval where
  "message_restart =
     JObj [(''type'', JStr ''status_update''),
           (''data'', JObj [(''status'', JStr ''running''),
                            (''completion_percentage'', JNum (Finite 0))])]"

definition frame_falsy :: string where
  \<open>frame_falsy =
     ''{"type":"status_update","data":{"status":"","completion_percentage":0,"current_node":""}}''\<close>

definition message_falsy :: jsval where
  "message_falsy =
     JObj [(''type'', JStr ''status_update''),
           (''data'', JObj [(''status'', JStr []),
                            (''completion_percentage'', JNum (Finite 0)),
                            (''current_node'', JStr [])])]"

definition frame_completion :: string where
  \<open>frame_completion = ''{"type":"completion"}''\<close>

definition message_completion :: jsval where
  "message_completion = JObj [(''type'', JStr ''completion'')]"

definition frame_garbage :: string where
  "frame_garbage = ''<html>''"

text \<open>
  \<^verbatim>\<open>JSON.parse\<close> on the five texts above: the four frames parse to their values, and
  \<open>frame_garbage\<close> is not JSON. The table is used at these texts only.
\<close>

definition example_JSON_parse :: "string \<Rightarrow> jsval option" where
  "example_JSON_parse s =
     (if s = frame_progress_10 then Some message_progress_10
      else if s = frame_restart then Some message_restart
      else if s = frame_falsy then Some message_falsy
      else if s = frame_completion then Some message_completion
      else None)"

text \<open>The provider after its first load, before the Dashboard mounts.\<close>

definition initial_pull :: pull_state where
  "initial_pull =
     \<lparr>projects = [example_job], ctx_loading = False, ctx_error = None, ctx_console = [],
      requests_pending = 0, interval_set = False\<rparr>"

section \<open>What a frame does to the project\<close>

lemma js_or_idem: "js_or a (js_or a b) = js_or a b"
  by (simp add: js_or_def)

lemma updater_idem:
  "status_update_updater m prev = Inr q \<Longrightarrow> status_update_updater m q = Inr q"
  unfolding status_update_updater_def
  by (auto split: option.splits sum.splits simp: js_or_def)

lemma project_loadProject: "project (loadProject st) = project st"
  by (simp add: loadProject_def)

lemma project_show_toast: "project (show_toast t st) = project st"
  by (simp add: show_toast_def)

lemma project_setProject:
  "project (setProject u st) = (case u (project st) of Inr q \<Rightarrow> q | Inl e \<Rightarrow> project st)"
  by (simp add: setProject_def split: sum.splits)

lemma project_onmessage_try:
  "project (snd (onmessage_try P d st)) =
     (case P d of
        None \<Rightarrow> project st
      | Some m \<Rightarrow>
          if get_prop m ''type'' = Inr (JStr ''status_update'')
          then (case status_update_updater m (project st) of Inr q \<Rightarrow> q | Inl e \<Rightarrow> project st)
          else project st)"
  unfolding onmessage_try_def Let_def
  by (simp add: project_loadProject project_show_toast project_setProject
        split: option.splits sum.splits)

text \<open>
  The project after a frame is a function of the parsed frame and the project before:
  the only write is the \<^verbatim>\<open>setProject\<close> of the \<^verbatim>\<open>status_update\<close> branch.
\<close>

lemma project_onmessage:
  "project (onmessage P d st) =
     (case P d of
        None \<Rightarrow> project st
      | Some m \<Rightarrow>
          if get_prop m ''type'' = Inr (JStr ''status_update'')
          then (case status_update_updater m (project st) of Inr q \<Rightarrow> q | Inl e \<Rightarrow> project st)
          else project st)"
proof -
  have "project (onmessage P d st) = project (snd (onmessage_try P d st))"
    by (simp add: onmessage_def split: prod.splits option.splits)
  then show ?thesis by (simp only: project_onmessage_try)
qed

text \<open>On a loaded project a frame does nothing, or it is the three-field overwrite.\<close>

lemma project_onmessage_Some:
  assumes "project st = Some p"
  shows "project (onmessage P d st) = Some p \<or>
         (\<exists>m s c n. P d = Some m \<and> get_prop m ''type'' = Inr (JStr ''status_update'') \<and>
            message_data m ''status'' = Inr s \<and>
            message_data m ''completion_percentage'' = Inr c \<and>
            message_data m ''current_node'' = Inr n \<and>
            project (onmessage P d st) =
              Some (p\<lparr>status := js_or s (status p),
                      completion_percentage := js_or c (completion_percentage p),
                      current_node := js_or n (current_node p)\<rparr>))"
  unfolding project_onmessage
  using assms
  by (auto simp: status_update_updater_def split: option.splits sum.splits)

lemmas example_frames =
  example_JSON_parse_def frame_progress_10_def frame_restart_def frame_falsy_def
  frame_completion_def frame_garbage_def

lemmas example_messages =
  message_progress_10_def message_restart_def message_falsy_def message_completion_def

section \<open>The push merge: progress\<close>

text \<open>
  C1, as the spec states it, fails on the code: a \<^verbatim>\<open>status_update\<close> carrying a lower
  completion percentage is not rejected. The job at 65 percent receives the frame with
  10 percent and shows 10 afterwards; the merged job differs from the job before.
\<close>

theorem C1_lower_percentage_applied:
  "completion_percentage example_job = JNum (Finite 65) \<and> (10::real) < 65 \<and>
   project (onmessage example_JSON_parse frame_progress_10 example_state) =
     Some (example_job\<lparr>completion_percentage := JNum (Finite 10)\<rparr>) \<and>
   project (onmessage example_JSON_parse frame_progress_10 example_state) \<noteq> project example_state"
  by (simp add: project_onmessage example_frames example_messages
        status_update_updater_def message_data_def example_state_def js_or_def example_job_def)

text \<open>
  C1 (amended): for every loaded job and every \<^verbatim>\<open>status_update\<close> frame whose data
  carries a truthy \<^verbatim>\<open>completion_percentage\<close>, the merged job's completion percentage
  is the carried value, whether it is lower or higher than the current one. The merge
  reads no generation: the sources have none.
\<close>

theorem status_update_applies_truthy_percentage:
  assumes "JSON_parse event_data = Some message"
    and "get_prop message ''type'' = Inr (JStr ''status_update'')"
    and "message_data message ''completion_percentage'' = Inr c"
    and "truthy c"
    and "project st = Some p"
  shows "\<exists>p'. project (onmessage JSON_parse event_data st) = Some p' \<and>
              completion_percentage p' = c"
proof -
  from assms(3) obtain d where d:
    "get_prop message ''data'' = Inr d" "get_prop d ''completion_percentage'' = Inr c"
    by (auto simp: message_data_def split: sum.splits)
  then have "d \<noteq> JUndefined" "d \<noteq> JNull"
    by auto
  then obtain s n where "get_prop d ''status'' = Inr s" "get_prop d ''current_node'' = Inr n"
    by (cases d) auto
  with d assms show ?thesis
    by (simp add: project_onmessage status_update_updater_def message_data_def js_or_def)
qed

text \<open>C1 (amended), at the frame with 10 percent arriving at the job at 65 percent.\<close>

theorem status_update_applies_truthy_percentage_witness:
  "example_JSON_parse frame_progress_10 = Some message_progress_10 \<and>
   truthy (JNum (Finite 10)) \<and>
   project example_state = Some example_job \<and>
   (\<exists>p'. project (onmessage example_JSON_parse frame_progress_10 example_state) = Some p' \<and>
         completion_percentage p' = JNum (Finite 10))"
proof -
  have h1: "example_JSON_parse frame_progress_10 = Some message_progress_10"
    by (simp add: example_frames)
  have h2: "get_prop message_progress_10 ''type'' = Inr (JStr ''status_update'')"
    by (simp add: example_messages)
  have h3: "message_data message_progress_10 ''completion_percentage'' = Inr (JNum (Finite 10))"
    by (simp add: example_messages message_data_def)
  have h4: "truthy (JNum (Finite 10))"
    by simp
  have h5: "project example_state = Some example_job"
    by (simp add: example_state_def)
  from status_update_applies_truthy_percentage
    [where JSON_parse = example_JSON_parse and event_data = frame_progress_10, OF h1 h2 h3 h4 h5]
    h1 h4 h5
  show ?thesis by simp
qed

section \<open>The push merge: falsy fields, idempotence\<close>

text \<open>
  C10: in the push merge a carried field whose value is falsy counts as absent. For every
  loaded job and every frame, a falsy \<^verbatim>\<open>data.status\<close>, \<^verbatim>\<open>data.completion_percentage\<close>
  or \<^verbatim>\<open>data.current_node\<close> (the number 0 and the empty string are falsy) leaves the
  job's field as it was; so no frame sets a non-zero completion percentage to 0.
\<close>

theorem status_update_falsy_field_is_absent:
  assumes "project st = Some p"
  shows "\<exists>p'. project (onmessage JSON_parse event_data st) = Some p' \<and>
           (\<forall>m s. JSON_parse event_data = Some m \<and> message_data m ''status'' = Inr s \<and>
                  \<not> truthy s \<longrightarrow> status p' = status p) \<and>
           (\<forall>m c. JSON_parse event_data = Some m \<and>
                  message_data m ''completion_percentage'' = Inr c \<and>
                  \<not> truthy c \<longrightarrow> completion_percentage p' = completion_percentage p) \<and>
           (\<forall>m n. JSON_parse event_data = Some m \<and> message_data m ''current_node'' = Inr n \<and>
                  \<not> truthy n \<longrightarrow> current_node p' = current_node p) \<and>
           \<not> truthy (JNum (Finite 0)) \<and> \<not> truthy (JStr []) \<and>
           (completion_percentage p \<noteq> JNum (Finite 0) \<longrightarrow>
              completion_percentage p' \<noteq> JNum (Finite 0))"
proof -
  from project_onmessage_Some [OF assms, of JSON_parse event_data]
  show ?thesis
  proof
    assume "project (onmessage JSON_parse event_data st) = Some p"
    then show ?thesis by simp
  next
    assume "\<exists>m s c n. JSON_parse event_data = Some m \<and>
        get_prop m ''type'' = Inr (JStr ''status_update'') \<and>
        message_data m ''status'' = Inr s \<and>
        message_data m ''completion_percentage'' = Inr c \<and>
        message_data m ''current_node'' = Inr n \<and>
        project (onmessage JSON_parse event_data st) =
          Some (p\<lparr>status := js_or s (status p),
                  completion_percentage := js_or c (completion_percentage p),
                  current_node := js_or n (current_node p)\<rparr>)"
    then obtain m s c n where m: "JSON_parse event_data = Some m"
      and s: "message_data m ''status'' = Inr s"
      and c: "message_data m ''completion_percentage'' = Inr c"
      and n: "message_data m ''current_node'' = Inr n"
      and p': "project (onmessage JSON_parse event_data st) =
          Some (p\<lparr>status := js_or s (status p),
                  completion_percentage := js_or c (completion_percentage p),
                  current_node := js_or n (current_node p)\<rparr>)"
      by blast
    have zero: "completion_percentage p \<noteq> JNum (Finite 0) \<Longrightarrow>
        js_or c (completion_percentage p) \<noteq> JNum (Finite 0)"
      by (auto simp: js_or_def)
    from m s c n zero show ?thesis
      unfolding p' by (simp add: js_or_def)
  qed
qed

text \<open>
  C10, at the frame carrying an empty status, 0 percent and an empty stage: the running
  job at 65 percent in stage codegen is what it was.
\<close>

theorem status_update_falsy_field_is_absent_witness:
  "project example_state = Some example_job \<and>
   (\<exists>p'. project (onmessage example_JSON_parse frame_falsy example_state) = Some p' \<and>
         status p' = JStr ''running'' \<and>
         completion_percentage p' = JNum (Finite 65) \<and>
         current_node p' = JStr ''codegen'')"
proof -
  have h: "project example_state = Some example_job"
    by (simp add: example_state_def)
  have parse: "example_JSON_parse frame_falsy = Some message_falsy"
    by (simp add: example_frames)
  have s: "message_data message_falsy ''status'' = Inr (JStr [])"
    and c: "message_data message_falsy ''completion_percentage'' = Inr (JNum (Finite 0))"
    and n: "message_data message_falsy ''current_node'' = Inr (JStr [])"
    by (simp_all add: example_messages message_data_def)
  from status_update_falsy_field_is_absent
    [where JSON_parse = example_JSON_parse and event_data = frame_falsy, OF h]
  obtain p' where p': "project (onmessage example_JSON_parse frame_falsy example_state) = Some p'"
    and fs: "\<forall>m s. example_JSON_parse frame_falsy = Some m \<and> message_data m ''status'' = Inr s \<and>
                  \<not> truthy s \<longrightarrow> status p' = status example_job"
    and fc: "\<forall>m c. example_JSON_parse frame_falsy = Some m \<and>
                  message_data m ''completion_percentage'' = Inr c \<and>
                  \<not> truthy c \<longrightarrow> completion_percentage p' = completion_percentage example_job"
    and fn: "\<forall>m n. example_JSON_parse frame_falsy = Some m \<and>
                  message_data m ''current_node'' = Inr n \<and>
                  \<not> truthy n \<longrightarrow> current_node p' = current_node example_job"
    by blast
  from fs [rule_format, of message_falsy "JStr []"] parse s
  have "status p' = status example_job"
    by simp
  moreover from fc [rule_format, of message_falsy "JNum (Finite 0)"] parse c
  have "completion_percentage p' = completion_percentage example_job"
    by simp
  moreover from fn [rule_format, of message_falsy "JStr []"] parse n
  have "current_node p' = current_node example_job"
    by simp
  ultimately show ?thesis
    using h p' by (simp add: example_job_def)
qed

text \<open>
  C7: handling the identical frame twice leaves the same job as handling it once, and so
  do the full replacements of the refetch and of the pull; the job after a frame is
  determined by the parsed frame and the job before, whatever the rest of the state holds.
\<close>

theorem onmessage_idempotent:
  "project (onmessage JSON_parse event_data (onmessage JSON_parse event_data st)) =
     project (onmessage JSON_parse event_data st) \<and>
   project (loadProject_resume projectData (loadProject_resume projectData st)) =
     project (loadProject_resume projectData st) \<and>
   (project st = project st' \<longrightarrow>
      project (onmessage JSON_parse event_data st) = project (onmessage JSON_parse event_data st')) \<and>
   projects (fetchProjects_resolved ps (fetchProjects_resolved ps pst)) =
     projects (fetchProjects_resolved ps pst)"
proof -
  have "project (onmessage JSON_parse event_data (onmessage JSON_parse event_data st)) =
     project (onmessage JSON_parse event_data st)"
    unfolding project_onmessage [of JSON_parse event_data "onmessage JSON_parse event_data st"]
    unfolding project_onmessage [of JSON_parse event_data st]
    by (auto split: option.splits sum.splits dest: updater_idem)
  moreover have "project (loadProject_resume projectData (loadProject_resume projectData st)) =
     project (loadProject_resume projectData st)"
    by (simp add: loadProject_resume_def split: option.splits)
  moreover have "project st = project st' \<longrightarrow>
      project (onmessage JSON_parse event_data st) = project (onmessage JSON_parse event_data st')"
  proof
    assume "project st = project st'"
    then show "project (onmessage JSON_parse event_data st) =
        project (onmessage JSON_parse event_data st')"
      by (simp only: project_onmessage)
  qed
  moreover have "projects (fetchProjects_resolved ps (fetchProjects_resolved ps pst)) =
     projects (fetchProjects_resolved ps pst)"
    by (simp add: fetchProjects_resolved_def)
  ultimately show ?thesis by blast
qed

text \<open>
  C7, at the frame with 10 percent handled twice by the job at 65 percent: 10 percent both
  times, also from a state that differs in its flags.
\<close>

theorem onmessage_idempotent_witness:
  "project (onmessage example_JSON_parse frame_progress_10
      (onmessage example_JSON_parse frame_progress_10 example_state)) =
     Some (example_job\<lparr>completion_percentage := JNum (Finite 10)\<rparr>) \<and>
   project (onmessage example_JSON_parse frame_progress_10 (example_state\<lparr>isRunning := False\<rparr>)) =
     Some (example_job\<lparr>completion_percentage := JNum (Finite 10)\<rparr>)"
proof -
  have once: "project (onmessage example_JSON_parse frame_progress_10 example_state) =
     Some (example_job\<lparr>completion_percentage := JNum (Finite 10)\<rparr>)"
    by (simp add: project_onmessage example_frames example_messages
        status_update_updater_def message_data_def example_state_def js_or_def example_job_def)
  have same: "project example_state = project (example_state\<lparr>isRunning := False\<rparr>)"
    by simp
  note idem = onmessage_idempotent
    [where JSON_parse = example_JSON_parse and event_data = frame_progress_10
       and st = example_state and st' = "example_state\<lparr>isRunning := False\<rparr>"]
  from idem have twice:
    "project (onmessage example_JSON_parse frame_progress_10
        (onmessage example_JSON_parse frame_progress_10 example_state)) =
     project (onmessage example_JSON_parse frame_progress_10 example_state)"
    by (rule conjunct1)
  from idem same have other:
    "project (onmessage example_JSON_parse frame_progress_10 example_state) =
     project (onmessage example_JSON_parse frame_progress_10 (example_state\<lparr>isRunning := False\<rparr>))"
    by blast
  show ?thesis
  proof
    show "project (onmessage example_JSON_parse frame_progress_10
        (onmessage example_JSON_parse frame_progress_10 example_state)) =
      Some (example_job\<lparr>completion_percentage := JNum (Finite 10)\<rparr>)"
      using twice once by (rule trans)
    show "project (onmessage example_JSON_parse frame_progress_10
        (example_state\<lparr>isRunning := False\<rparr>)) =
      Some (example_job\<lparr>completion_percentage := JNum (Finite 10)\<rparr>)"
      using other [symmetric] once by (rule trans)
  qed
qed

section \<open>The push handler: malformed frames, completion\<close>

text \<open>
  C9: a frame whose payload \<^verbatim>\<open>JSON.parse\<close> rejects is dropped and logged. The handler
  returns with one more console entry and nothing else changed: the job, the socket and
  the pending requests are as before, and no error leaves the handler or reaches a render.
\<close>

theorem unparseable_frame_dropped:
  assumes "JSON_parse event_data = None"
  shows "onmessage JSON_parse event_data st =
           st\<lparr>console := console st @ [(''Error parsing WebSocket message:'', SyntaxError)]\<rparr> \<and>
         project (onmessage JSON_parse event_data st) = project st \<and>
         ws (onmessage JSON_parse event_data st) = ws st \<and>
         render_error (onmessage JSON_parse event_data st) = render_error st"
  using assms by (simp add: onmessage_def onmessage_try_def)

text \<open>C9, at a frame holding HTML: the running job at 65 percent stays, one line is logged.\<close>

theorem unparseable_frame_dropped_witness:
  "example_JSON_parse frame_garbage = None \<and>
   onmessage example_JSON_parse frame_garbage example_state =
     example_state\<lparr>console := [(''Error parsing WebSocket message:'', SyntaxError)]\<rparr> \<and>
   project (onmessage example_JSON_parse frame_garbage example_state) = Some example_job"
proof -
  have h: "example_JSON_parse frame_garbage = None"
    by (simp add: example_frames)
  have c: "console example_state = []" and p: "project example_state = Some example_job"
    by (simp_all add: example_state_def)
  from unparseable_frame_dropped
    [where JSON_parse = example_JSON_parse and event_data = frame_garbage
       and st = example_state, OF h]
    h c p
  show ?thesis by simp
qed

text \<open>
  C5: a \<^verbatim>\<open>completion\<close> frame sets no field of the job. The handler shows a toast and
  calls \<^verbatim>\<open>loadProject\<close> once: one more \<^verbatim>\<open>getProject\<close> request is pending, and the job
  and the running flag are untouched until the reply. The reply, when it is a project,
  replaces the job whole; with it the request is no longer pending.
\<close>

theorem completion_frame_triggers_one_refetch:
  assumes "JSON_parse event_data = Some message"
    and "get_prop message ''type'' = Inr (JStr ''completion'')"
    and "\<not> no_projectId st"
  shows "project (onmessage JSON_parse event_data st) = project st \<and>
         isRunning (onmessage JSON_parse event_data st) = isRunning st \<and>
         render_error (onmessage JSON_parse event_data st) = render_error st \<and>
         getProject_pending (onmessage JSON_parse event_data st) = getProject_pending st + 1 \<and>
         project (loadProject_resume (Some pd) (onmessage JSON_parse event_data st)) = Some pd \<and>
         getProject_pending (loadProject_resume reply (onmessage JSON_parse event_data st)) =
           getProject_pending st"
proof -
  have "onmessage JSON_parse event_data st =
      loadProject (show_toast (Toast ''Project completed''
        (JStr ''Your application has been generated successfully'') ''success'') st)"
    using assms(1,2) by (simp add: onmessage_def onmessage_try_def)
  moreover have "\<not> no_projectId (show_toast t st)" for t
    using assms(3) by (simp add: no_projectId_def show_toast_def)
  ultimately show ?thesis
    by (simp add: loadProject_def show_toast_def loadProject_resume_def split: option.splits)
qed

text \<open>
  C5, at the completion frame arriving at the running job: the job is still the running
  one at 65 percent, and one refetch is pending.
\<close>

theorem completion_frame_triggers_one_refetch_witness:
  "example_JSON_parse frame_completion = Some message_completion \<and>
   \<not> no_projectId example_state \<and>
   project (onmessage example_JSON_parse frame_completion example_state) = Some example_job \<and>
   getProject_pending (onmessage example_JSON_parse frame_completion example_state) = 1 \<and>
   project (loadProject_resume (Some failed_job)
      (onmessage example_JSON_parse frame_completion example_state)) = Some failed_job"
proof -
  have h1: "example_JSON_parse frame_completion = Some message_completion"
    by (simp add: example_frames)
  have h2: "get_prop message_completion ''type'' = Inr (JStr ''completion'')"
    by (simp add: example_messages)
  have h3: "\<not> no_projectId example_state"
    by (simp add: no_projectId_def example_state_def)
  have p: "project example_state = Some example_job"
    and g: "getProject_pending example_state = 0"
    by (simp_all add: example_state_def)
  from completion_frame_triggers_one_refetch
    [where JSON_parse = example_JSON_parse and event_data = frame_completion
       and st = example_state and pd = failed_job, OF h1 h2 h3]
    h1 h3 p g
  show ?thesis by simp
qed

section \<open>Starting and restarting a run\<close>

text \<open>
  C2, as the spec states it, fails on the code: the job that failed at 40 percent is
  started again. The start request leaves the job as it is; the server's first
  \<^verbatim>\<open>status_update\<close> of the new run, with status running and 0 percent, makes it running
  and leaves 40 percent and the artifacts of the failed run in place.
\<close>

theorem C2_restart_resets_nothing:
  "status failed_job = JStr ''failed'' \<and>
   project (handleRunProject True failed_state) = Some failed_job \<and>
   project (onmessage example_JSON_parse frame_restart (handleRunProject True failed_state)) =
     Some (failed_job\<lparr>status := JStr ''running''\<rparr>) \<and>
   completion_percentage (failed_job\<lparr>status := JStr ''running''\<rparr>) = JNum (Finite 40) \<and>
   JNum (Finite 40) \<noteq> JNum (Finite 0) \<and>
   artifacts (failed_job\<lparr>status := JStr ''running''\<rparr>) =
     JObj [(''code_files'', JObj [(''app.py'', JStr ''print(1)'')])]"
proof -
  have start: "project (handleRunProject True failed_state) = Some failed_job"
    by (simp add: handleRunProject_def runProject_def no_projectId_def show_toast_def
        failed_state_def)
  have "project (onmessage example_JSON_parse frame_restart (handleRunProject True failed_state)) =
     Some (failed_job\<lparr>status := JStr ''running''\<rparr>)"
    unfolding project_onmessage start
    by (simp add: example_frames example_messages status_update_updater_def message_data_def
        js_or_def failed_job_def)
  with start show ?thesis
    by (simp add: failed_job_def)
qed

text \<open>
  C2 (amended): for every job, in a terminal status or not, a start request changes no
  field of the job held by the client, whether the request succeeds or fails; the code
  has no generation counter. A push frame that follows changes at most the status, the
  completion percentage and the current stage: the artifacts and every other field stay
  until a refetch replaces the job.
\<close>

theorem start_changes_no_job_field:
  "project (handleRunProject post_ok st) = project st \<and>
   (project st = Some p \<longrightarrow>
      (\<exists>s c n. project (onmessage JSON_parse event_data st) =
         Some (p\<lparr>status := s, completion_percentage := c, current_node := n\<rparr>)))"
proof
  show "project (handleRunProject post_ok st) = project st"
    by (simp add: handleRunProject_def runProject_def show_toast_def)
  show "project st = Some p \<longrightarrow>
      (\<exists>s c n. project (onmessage JSON_parse event_data st) =
         Some (p\<lparr>status := s, completion_percentage := c, current_node := n\<rparr>))"
  proof
    assume p: "project st = Some p"
    from project_onmessage_Some [OF p, of JSON_parse event_data]
    show "\<exists>s c n. project (onmessage JSON_parse event_data st) =
         Some (p\<lparr>status := s, completion_percentage := c, current_node := n\<rparr>)"
    proof
      assume "project (onmessage JSON_parse event_data st) = Some p"
      then have "project (onmessage JSON_parse event_data st) =
         Some (p\<lparr>status := status p, completion_percentage := completion_percentage p,
                 current_node := current_node p\<rparr>)"
        by simp
      then show ?thesis by blast
    next
      assume "\<exists>m s c n. JSON_parse event_data = Some m \<and>
        get_prop m ''type'' = Inr (JStr ''status_update'') \<and>
        message_data m ''status'' = Inr s \<and>
        message_data m ''completion_percentage'' = Inr c \<and>
        message_data m ''current_node'' = Inr n \<and>
        project (onmessage JSON_parse event_data st) =
          Some (p\<lparr>status := js_or s (status p),
                  completion_percentage := js_or c (completion_percentage p),
                  current_node := js_or n (current_node p)\<rparr>)"
      then show ?thesis by blast
    qed
  qed
qed

text \<open>
  C2 (amended), at the restart of the failed job: the job after the start request is the
  failed job, and after the first frame of the new run it has the artifacts it had.
\<close>

theorem start_changes_no_job_field_witness:
  "project failed_state = Some failed_job \<and>
   project (handleRunProject True failed_state) = Some failed_job \<and>
   (\<exists>p'. project (onmessage example_JSON_parse frame_restart failed_state) = Some p' \<and>
         artifacts p' = artifacts failed_job)"
proof -
  have p: "project failed_state = Some failed_job"
    by (simp add: failed_state_def)
  note inst = start_changes_no_job_field
    [where st = failed_state and p = failed_job and post_ok = True
       and JSON_parse = example_JSON_parse and event_data = frame_restart]
  from inst have "project (handleRunProject True failed_state) = project failed_state"
    by (rule conjunct1)
  moreover from inst p obtain s c n where
    "project (onmessage example_JSON_parse frame_restart failed_state) =
       Some (failed_job\<lparr>status := s, completion_percentage := c, current_node := n\<rparr>)"
    by blast
  ultimately show ?thesis
    using p by simp
qed

text \<open>
  C3, as the spec states it, fails on the code: a partially completed job cannot be
  started, since \<^verbatim>\<open>canRun\<close> is false for it and the button is not rendered. And the
  handler tests no status: called for the running job with the request accepted, it
  reports the start, and no conflict error.
\<close>

theorem C3_partially_completed_cannot_start:
  "\<not> canRun (example_job\<lparr>status := JStr ''partially_completed''\<rparr>) \<and>
   \<not> run_button (example_state\<lparr>project := Some (example_job\<lparr>status := JStr ''partially_completed''\<rparr>)\<rparr>) \<and>
   status example_job = JStr ''running'' \<and>
   toasts (handleRunProject True example_state) =
     [Toast ''Project started'' (JStr ''The application generation has started'') ''info'']"
  by (simp add: canRun_def run_button_def example_state_def example_job_def
      handleRunProject_def runProject_def no_projectId_def show_toast_def)

text \<open>
  C3 (amended): the start button is offered only for a loaded job whose status is one of
  created, failed, cancelled or completed, and \<^verbatim>\<open>canRun\<close> holds for exactly these four.
  The handler itself tests no status and knows no conflict error: a request that the
  server rejects, for whatever reason, leaves the job unchanged and shows the toast
  "Start failed".
\<close>

theorem canRun_four_statuses:
  "(canRun p \<longleftrightarrow>
      status p = JStr ''created'' \<or> status p = JStr ''failed'' \<or>
      status p = JStr ''cancelled'' \<or> status p = JStr ''completed'') \<and>
   (run_button st \<longrightarrow> (\<exists>q. project st = Some q \<and> canRun q)) \<and>
   project (handleRunProject False st) = project st \<and>
   (\<not> no_projectId st \<longrightarrow>
      toasts (handleRunProject False st) =
        toasts st @ [Toast ''Start failed'' (JStr ''Failed to start the project'') ''error''])"
proof -
  have "canRun p \<longleftrightarrow>
      status p = JStr ''created'' \<or> status p = JStr ''failed'' \<or>
      status p = JStr ''cancelled'' \<or> status p = JStr ''completed''"
    by (simp add: canRun_def)
  moreover have "run_button st \<longrightarrow> (\<exists>q. project st = Some q \<and> canRun q)"
    by (simp add: run_button_def split: if_splits option.splits)
  moreover have "project (handleRunProject False st) = project st"
    by (simp add: handleRunProject_def runProject_def show_toast_def)
  moreover have "\<not> no_projectId st \<longrightarrow>
      toasts (handleRunProject False st) =
        toasts st @ [Toast ''Start failed'' (JStr ''Failed to start the project'') ''error'']"
    by (simp add: handleRunProject_def runProject_def show_toast_def)
  ultimately show ?thesis by blast
qed

text \<open>
  C3 (amended), at the failed job: the button is offered, and a rejected request leaves
  the failed job and shows the one toast.
\<close>

theorem canRun_four_statuses_witness:
  "run_button failed_state \<and> \<not> no_projectId failed_state \<and> canRun failed_job \<and>
   project (handleRunProject False failed_state) = Some failed_job \<and>
   toasts (handleRunProject False failed_state) =
     [Toast ''Start failed'' (JStr ''Failed to start the project'') ''error'']"
proof -
  have b: "run_button failed_state"
    by (simp add: run_button_def failed_state_def canRun_def failed_job_def)
  have i: "\<not> no_projectId failed_state"
    by (simp add: no_projectId_def failed_state_def)
  have p: "project failed_state = Some failed_job" and t: "toasts failed_state = []"
    by (simp_all add: failed_state_def)
  have s: "status failed_job = JStr ''failed''"
    by (simp add: failed_job_def)
  note inst = canRun_four_statuses [where st = failed_state and p = failed_job]
  from inst s have "canRun failed_job" by blast
  moreover from inst p have "project (handleRunProject False failed_state) = Some failed_job"
    by simp
  moreover from inst i t have "toasts (handleRunProject False failed_state) =
     [Toast ''Start failed'' (JStr ''Failed to start the project'') ''error'']"
    by simp
  ultimately show ?thesis
    using b i by blast
qed

section \<open>The pull channel\<close>

lemma dashboard_tick_funpow:
  "interval_set st \<Longrightarrow>
   interval_set ((dashboard_tick ^^ k) st) \<and>
   requests_pending ((dashboard_tick ^^ k) st) = requests_pending st + k \<and>
   projects ((dashboard_tick ^^ k) st) = projects st"
  by (induction k) (simp_all add: dashboard_tick_def fetchProjects_def)

text \<open>
  C4, as the spec states it, fails on the code: the Dashboard mounts, the first tick
  issues a fetch, and with that fetch still outstanding the second tick issues another
  one. Two pull requests are in flight.
\<close>

theorem C4_tick_overlaps_outstanding_fetch:
  "requests_pending (dashboard_tick (dashboard_mount initial_pull)) = 1 \<and>
   requests_pending (dashboard_tick (dashboard_tick (dashboard_mount initial_pull))) = 2"
  by (simp add: dashboard_tick_def dashboard_mount_def fetchProjects_def initial_pull_def)

text \<open>
  C4 (amended): while the interval is set, every tick issues a new fetch, whether or not
  an earlier one is outstanding: after \<open>k\<close> ticks with no reply in between, \<open>k\<close> more
  requests are in flight. The code keeps no bound on the requests in flight.
\<close>

theorem every_tick_issues_fetch:
  assumes "interval_set st"
  shows "requests_pending (dashboard_tick st) = requests_pending st + 1 \<and>
         requests_pending ((dashboard_tick ^^ k) st) = requests_pending st + k"
  using dashboard_tick_funpow [OF assms, of k] dashboard_tick_funpow [OF assms, of 1]
  by simp

text \<open>C4 (amended), at three ticks after the mount, with no reply: three requests.\<close>

theorem every_tick_issues_fetch_witness:
  "interval_set (dashboard_mount initial_pull) \<and>
   requests_pending ((dashboard_tick ^^ 3) (dashboard_mount initial_pull)) = 3"
proof -
  have h: "interval_set (dashboard_mount initial_pull)"
    by (simp add: dashboard_mount_def)
  have z: "requests_pending (dashboard_mount initial_pull) = 0"
    by (simp add: dashboard_mount_def initial_pull_def)
  from every_tick_issues_fetch [OF h, of 3] h z
  show ?thesis by simp
qed

text \<open>
  C6: a fetch that fails records the error and mutates no job: the list of projects is
  the one held before. The interval stays as it was, so while it is set the next tick
  issues a fetch again, which clears the recorded error; the list is still the same.
\<close>

theorem failed_fetch_keeps_snapshot:
  "projects (fetchProjects_rejected st) = projects st \<and>
   ctx_error (fetchProjects_rejected st) = Some ''Failed to fetch projects'' \<and>
   ctx_console (fetchProjects_rejected st) = ctx_console st @ [RequestError] \<and>
   interval_set (fetchProjects_rejected st) = interval_set st \<and>
   (interval_set st \<longrightarrow>
      requests_pending (dashboard_tick (fetchProjects_rejected st)) =
        requests_pending (fetchProjects_rejected st) + 1 \<and>
      ctx_error (dashboard_tick (fetchProjects_rejected st)) = None \<and>
      projects (dashboard_tick (fetchProjects_rejected st)) = projects st)"
  by (simp add: fetchProjects_rejected_def dashboard_tick_def fetchProjects_def)

text \<open>
  C6, at the first fetch after the mount failing: the list still holds the one job, the
  error is recorded, and the next tick has a request in flight again.
\<close>

theorem failed_fetch_keeps_snapshot_witness:
  "interval_set (dashboard_tick (dashboard_mount initial_pull)) \<and>
   projects (fetchProjects_rejected (dashboard_tick (dashboard_mount initial_pull))) =
     [example_job] \<and>
   ctx_error (fetchProjects_rejected (dashboard_tick (dashboard_mount initial_pull))) =
     Some ''Failed to fetch projects'' \<and>
   requests_pending
     (dashboard_tick (fetchProjects_rejected (dashboard_tick (dashboard_mount initial_pull)))) = 1"
proof -
  have h: "interval_set (dashboard_tick (dashboard_mount initial_pull))"
    by (simp add: dashboard_tick_def dashboard_mount_def fetchProjects_def)
  have p: "projects (dashboard_tick (dashboard_mount initial_pull)) = [example_job]"
    by (simp add: dashboard_tick_def dashboard_mount_def fetchProjects_def initial_pull_def)
  have z: "requests_pending
      (fetchProjects_rejected (dashboard_tick (dashboard_mount initial_pull))) = 0"
    by (simp add: fetchProjects_rejected_def dashboard_tick_def dashboard_mount_def
        fetchProjects_def initial_pull_def)
  from failed_fetch_keeps_snapshot [of "dashboard_tick (dashboard_mount initial_pull)"] h p z
  show ?thesis by simp
qed

section \<open>The heartbeat\<close>

lemma pingCallback_funpow:
  assumes "ws st = Some w" and "readyState w = OPEN"
  shows "ws ((pingCallback ^^ k) st) =
           Some (w\<lparr>sent := sent w @ replicate k (JObj [(''type'', JStr ''ping'')])\<rparr>)"
proof (induction k)
  case 0
  from assms show ?case by simp
next
  case (Suc k)
  then show ?case
    using assms(2) by (simp add: pingCallback_def replicate_append_same)
qed

lemma ws_onmessage_try: "ws (snd (onmessage_try P d st)) = ws st"
  unfolding onmessage_try_def Let_def
  by (simp add: loadProject_def show_toast_def setProject_def split: option.splits sum.splits)

lemma ws_onmessage: "ws (onmessage P d st) = ws st"
proof -
  have "ws (onmessage P d st) = ws (snd (onmessage_try P d st))"
    by (simp add: onmessage_def split: prod.splits option.splits)
  then show ?thesis by (simp only: ws_onmessage_try)
qed

text \<open>
  C8, as the spec states it, fails on the code: the socket is open and 90 seconds go by
  with no frame arriving, more than twice the heartbeat interval. Three pings have been
  sent and the socket is still open: nothing closed it as stale.
\<close>

theorem C8_silent_socket_stays_open:
  "2 * pingIntervalMs < 90000 \<and>
   ws (snd (ping_elapse 90000 (0, example_state))) =
     Some \<lparr>readyState = OPEN,
           sent = [JObj [(''type'', JStr ''ping'')], JObj [(''type'', JStr ''ping'')],
                   JObj [(''type'', JStr ''ping'')]]\<rparr>"
proof -
  have w: "ws example_state = Some \<lparr>readyState = OPEN, sent = []\<rparr>"
    by (simp add: example_state_def)
  have r: "interval_runs pingIntervalMs 0 90000 = 3"
    by (simp add: interval_runs_def pingIntervalMs_def)
  from pingCallback_funpow [OF w, of 3] r show ?thesis
    by (simp add: ping_elapse_def pingIntervalMs_def numeral_3_eq_3)
qed

text \<open>
  C8 (amended): while the socket is open, a ping is sent at every multiple of 30000 ms
  after the effect ran. The client keeps no record of incoming traffic (a frame leaves
  the socket as it is) and has no staleness timeout: however long no frame arrives, the
  socket stays open on the client's side.
\<close>

theorem ping_every_interval_never_stale:
  assumes "ws st = Some w" and "readyState w = OPEN"
  shows "pingIntervalMs = 30000 \<and>
         ws (snd (ping_elapse d (t, st))) =
           Some (w\<lparr>sent := sent w @
             replicate (interval_runs pingIntervalMs t d) (JObj [(''type'', JStr ''ping'')])\<rparr>) \<and>
         ws (onmessage JSON_parse event_data st) = ws st"
  using pingCallback_funpow [OF assms, of "interval_runs pingIntervalMs t d"]
  by (simp add: ping_elapse_def pingIntervalMs_def ws_onmessage)

text \<open>
  C8 (amended), at ten minutes of silence on the open socket of the running job: twenty
  pings sent, the socket open.
\<close>

theorem ping_every_interval_never_stale_witness:
  "ws example_state = Some \<lparr>readyState = OPEN, sent = []\<rparr> \<and>
   ws (snd (ping_elapse 600000 (0, example_state))) =
     Some \<lparr>readyState = OPEN, sent = replicate 20 (JObj [(''type'', JStr ''ping'')])\<rparr>"
proof -
  have w: "ws example_state = Some \<lparr>readyState = OPEN, sent = []\<rparr>"
    by (simp add: example_state_def)
  have o: "readyState \<lparr>readyState = OPEN, sent = []\<rparr> = OPEN"
    by simp
  have r: "interval_runs 30000 0 600000 = 20"
    by (simp add: interval_runs_def)
  from ping_every_interval_never_stale [OF w o, of 600000 0] w r
  show ?thesis by simp
qed

end
